theory Spec2Isabelle
  imports Main "HOL-Library.Word"
begin

section \<open>Errors and outcomes\<close>

text \<open>
  Go errors are values. An error produced by a collaborator is opaque (\<open>ExtError\<close>);
  \<open>fmt.Errorf("<prefix>%w", err)\<close> keeps the wrapped error below a message prefix.
\<close>

datatype error = ExtError nat | Errorf string error

text \<open>
  A call either returns a value, panics (nil dereference), never gets past
  \<open>Lock()\<close> because the mutex is held, or dies in the runtime's fatal error
  \<open>sync: Unlock of unlocked RWMutex\<close>.
\<close>

datatype 'a outcome = Returns 'a | Panics | Blocks | Fatal

section \<open>Device information (tpm/info.go)\<close>

text \<open>
  \<open>type Version attest.TPMVersion\<close>; go-attestation declares
  \<open>type TPMVersion uint8\<close> with the constants
  \<open>TPMVersionAgnostic = iota; TPMVersion12; TPMVersion20\<close>.
\<close>

type_synonym Version = "8 word"

definition TPMVersion12 :: Version where
  "TPMVersion12 = 1"

definition TPMVersion20 :: Version where
  "TPMVersion20 = 2"

definition Version_String :: "Version \<Rightarrow> string" where
  "Version_String v =
     (if v = TPMVersion12 then ''TPM 1.2''
      else if v = TPMVersion20 then ''TPM 2.0''
      else ''unknown'')"

text \<open>
  \<open>json.Marshal\<close> on a Go string (encoding/json, HTML escaping on): the bytes of the
  string between two double quotes; the double quote, the backslash, newline, carriage
  return and tab get a two-byte escape, every other control byte and \<open><\<close>, \<open>>\<close>,
  \<open>&\<close> a \<open>\u00XX\<close> escape. It has no failing path for a string. Bytes from 0x80 on
  are copied: the replacement of ill-formed UTF-8 and the escapes of U+2028 and U+2029 are
  left out, and so is the short form that newer Go releases give backspace and form feed.
  The strings marshalled below are plain ASCII.
\<close>

definition dquote :: char where
  "dquote = CHR 0x22"

definition backslash :: char where
  "backslash = CHR 0x5C"

definition hex_digit :: "nat \<Rightarrow> char" where
  "hex_digit n = ''0123456789abcdef'' ! (n mod 16)"

definition json_escape :: "char \<Rightarrow> string" where
  "json_escape c =
     (if c = dquote \<or> c = backslash then [backslash, c]
      else if c = CHR 0x0A then [backslash, CHR ''n'']
      else if c = CHR 0x0D then [backslash, CHR ''r'']
      else if c = CHR 0x09 then [backslash, CHR ''t'']
      else if (of_char c :: nat) < 32 \<or> c = CHR ''<'' \<or> c = CHR ''>'' \<or> c = CHR ''&''
        then [backslash, CHR ''u'', CHR ''0'', CHR ''0'',
              hex_digit (of_char c div 16), hex_digit (of_char c)]
      else [c])"

definition json_Marshal :: "string \<Rightarrow> error + string" where
  "json_Marshal s = Inr (dquote # concat (map json_escape s) @ [dquote])"

definition Version_MarshalJSON :: "Version \<Rightarrow> error + string" where
  "Version_MarshalJSON v =
     (let s = (if v = TPMVersion12 then ''1.2''
               else if v = TPMVersion20 then ''2.0''
               else ''unknown'')
      in json_Marshal s)"

text \<open>
  \<open>manufacturer.ID\<close> is a \<open>uint32\<close>. The lookups \<open>manufacturer.GetEncodings\<close> and
  \<open>manufacturer.GetNameByASCII\<close> live in another package and are parameters here.
\<close>

type_synonym ID = "32 word"

record Manufacturer =
  ID :: ID
  Name :: string
  ASCII :: string
  Hex :: string

definition GetManufacturerByID ::
  "(ID \<Rightarrow> string \<times> string) \<Rightarrow> (string \<Rightarrow> string) \<Rightarrow> ID \<Rightarrow> Manufacturer" where
  "GetManufacturerByID GetEncodings GetNameByASCII mid =
     (case GetEncodings mid of (ascii, hexa) \<Rightarrow>
        let name = GetNameByASCII ascii in
        \<lparr>ID = mid, Name = name, ASCII = ascii, Hex = hexa\<rparr>)"

section \<open>The device handle: \<open>TPM\<close>, \<open>New\<close>, \<open>Open\<close>, \<open>Close\<close>\<close>

text \<open>
  Pointers and interface values are object identities; \<open>None\<close> is \<open>nil\<close>. The simulator
  stored in \<open>rwc\<close> is the same identity, so aliasing is equality of references.
\<close>

type_synonym ref = nat

record OpenConfig =
  TPMVersion :: Version
  CommandChannel :: "ref option"

text \<open>
  Modelled from the spec: the store returned by \<open>storage.BlackHole()\<close> (package
  \<open>tpm/storage\<close>) is the no-op store that reads and writes nothing; any other
  implementation of \<open>storage.TPMStore\<close> is an identity.
\<close>

datatype TPMStore = BlackHole | OtherStore ref

record TPM =
  deviceName :: string
  attestConfig :: "OpenConfig option"
  attestTPM :: "ref option"
  rwc :: "ref option"
  lock :: bool
  store :: "TPMStore option"
  simulator :: "ref option"

type_synonym NewTPMOption = "TPM \<Rightarrow> error + TPM"

definition WithDeviceName :: "string \<Rightarrow> NewTPMOption" where
  "WithDeviceName name t = Inr (t\<lparr>deviceName := name\<rparr>)"

definition WithStore :: "TPMStore option \<Rightarrow> NewTPMOption" where
  "WithStore st t =
     (let st' = (if st = None then Some BlackHole else st)
      in Inr (t\<lparr>store := st'\<rparr>))"

fun apply_options :: "NewTPMOption list \<Rightarrow> TPM \<Rightarrow> error + TPM" where
  "apply_options [] tpm = Inr tpm"
| "apply_options (opt # opts) tpm =
     (case opt tpm of
        Inl err \<Rightarrow> Inl err
      | Inr tpm' \<Rightarrow> apply_options opts tpm')"

definition New :: "NewTPMOption list \<Rightarrow> error + TPM" where
  "New opts =
     apply_options opts
       \<lparr>deviceName = [],
        attestConfig = Some \<lparr>TPMVersion = TPMVersion20, CommandChannel = None\<rparr>,
        attestTPM = None,
        rwc = None,
        lock = False,
        store = Some BlackHole,
        simulator = None\<rparr>"

text \<open>
  Modelled from the spec: the call-context carries two boolean-valued signals read by
  \<open>isInternalCall\<close> and \<open>isGoTPMCall\<close> (declared elsewhere in package \<open>tpm\<close>): the
  internal-call marker and the raw-transport marker.
\<close>

record call_context =
  internalCall :: bool
  goTPMCall :: bool

definition isInternalCall :: "call_context \<Rightarrow> bool" where
  "isInternalCall ctx = internalCall ctx"

definition isGoTPMCall :: "call_context \<Rightarrow> bool" where
  "isGoTPMCall ctx = goTPMCall ctx"

text \<open>
  What the collaborators answer during one call: \<open>store.Load()\<close>, \<open>attest.OpenTPM\<close>,
  \<open>open.TPM\<close>, and the two \<open>Close\<close> methods. Each is invoked at most once per call of
  \<open>Open\<close> or \<open>Close\<close>, so one environment per call covers every behaviour. An open
  that reports no error hands back an object (never nil).
\<close>

record env =
  store_Load :: "TPMStore \<Rightarrow> error option"
  attest_OpenTPM :: "OpenConfig option \<Rightarrow> error + ref"
  open_TPM :: "string \<Rightarrow> error + ref"
  attestTPM_Close :: "ref \<Rightarrow> error option"
  rwc_Close :: "ref \<Rightarrow> error option"

text \<open>The calls a handle makes on its lock and its collaborators, in program order.\<close>

datatype event =
    LockCall
  | UnlockCall
  | LoadCall TPMStore
  | AttestOpenCall "OpenConfig option"
  | DeviceOpenCall string
  | AttestCloseCall ref
  | ChannelCloseCall ref

text \<open>Lines 204-232 of \<open>Open\<close>: the backend selection, once the store is loaded.\<close>

definition openBackend :: "env \<Rightarrow> call_context \<Rightarrow> TPM \<Rightarrow> error option \<times> TPM \<times> event list" where
  "openBackend e ctx t =
     (case simulator t of
        Some sim \<Rightarrow>
          (case attestTPM t of
             None \<Rightarrow>
               (let cfg = Some \<lparr>TPMVersion = TPMVersion20, CommandChannel = Some sim\<rparr> in
                case attest_OpenTPM e cfg of
                  Inl err \<Rightarrow>
                    (Some (Errorf ''failed opening attest.TPM: '' err), t, [AttestOpenCall cfg])
                | Inr at \<Rightarrow>
                    (None, t\<lparr>attestTPM := Some at, rwc := Some sim\<rparr>, [AttestOpenCall cfg]))
           | Some _ \<Rightarrow> (None, t\<lparr>rwc := Some sim\<rparr>, []))
      | None \<Rightarrow>
          (if isGoTPMCall ctx then
             (case open_TPM e (deviceName t) of
                Inl err \<Rightarrow>
                  (Some (Errorf ''failed opening TPM: '' err), t, [DeviceOpenCall (deviceName t)])
              | Inr ch \<Rightarrow> (None, t\<lparr>rwc := Some ch\<rparr>, [DeviceOpenCall (deviceName t)]))
           else
             (case attest_OpenTPM e (attestConfig t) of
                Inl err \<Rightarrow>
                  (Some (Errorf ''failed opening TPM: '' err), t, [AttestOpenCall (attestConfig t)])
              | Inr at \<Rightarrow> (None, t\<lparr>attestTPM := Some at\<rparr>, [AttestOpenCall (attestConfig t)]))))"

definition Open :: "env \<Rightarrow> call_context \<Rightarrow> TPM \<Rightarrow> error option outcome \<times> TPM \<times> event list" where
  "Open e ctx t =
     (if isInternalCall ctx then (Returns None, t, [])
      else if lock t then (Blocks, t, [LockCall])
      else
        (let t1 = t\<lparr>lock := True\<rparr> in
         case store t1 of
           None \<Rightarrow> (Panics, t1, [LockCall])
         | Some s \<Rightarrow>
             (case store_Load e s of
                Some err \<Rightarrow> (Returns (Some err), t1, [LockCall, LoadCall s])
              | None \<Rightarrow>
                  (case openBackend e ctx t1 of
                     (r, t2, evs) \<Rightarrow> (Returns r, t2, [LockCall, LoadCall s] @ evs)))))"

text \<open>\<open>t.lock.Unlock()\<close>: fatal when the mutex is not held.\<close>

definition Unlock :: "TPM \<Rightarrow> unit outcome \<times> TPM \<times> event list" where
  "Unlock t =
     (if lock t then (Returns (), t\<lparr>lock := False\<rparr>, [UnlockCall])
      else (Fatal, t, [UnlockCall]))"

text \<open>Lines 252-256 and 258-262 of \<open>Close\<close>: the result of each close is assigned to \<open>_\<close>.\<close>

definition closeAttestTPM :: "env \<Rightarrow> TPM \<Rightarrow> TPM \<times> event list" where
  "closeAttestTPM e t =
     (case attestTPM t of
        Some at \<Rightarrow>
          (let err = attestTPM_Close e at; _ = err
           in (t\<lparr>attestTPM := None\<rparr>, [AttestCloseCall at]))
      | None \<Rightarrow> (t, []))"

definition closeRwc :: "env \<Rightarrow> TPM \<Rightarrow> TPM \<times> event list" where
  "closeRwc e t =
     (case rwc t of
        Some ch \<Rightarrow>
          (let err = rwc_Close e ch; _ = err
           in (t\<lparr>rwc := None\<rparr>, [ChannelCloseCall ch]))
      | None \<Rightarrow> (t, []))"

definition Close :: "env \<Rightarrow> call_context \<Rightarrow> TPM \<Rightarrow> unit outcome \<times> TPM \<times> event list" where
  "Close e ctx t =
     (if isInternalCall ctx then (Returns (), t, [])
      else if simulator t \<noteq> None then Unlock t
      else
        (case closeAttestTPM e t of
           (t1, evs1) \<Rightarrow>
             (case closeRwc e t1 of
                (t2, evs2) \<Rightarrow>
                  (case Unlock t2 of
                     (r, t3, evs3) \<Rightarrow> (r, t3, evs1 @ evs2 @ evs3)))))"

subsection \<open>Sequences of calls on one handle\<close>

datatype call = CallOpen env call_context | CallClose env call_context

text \<open>
  Control comes back to the caller after a return and after a panic (which the caller can
  recover); a blocked \<open>Lock()\<close> and a fatal runtime error give it back never.
\<close>

fun resumes :: "'a outcome \<Rightarrow> bool" where
  "resumes (Returns _) = True"
| "resumes Panics = True"
| "resumes Blocks = False"
| "resumes Fatal = False"

fun step :: "call \<Rightarrow> TPM \<Rightarrow> bool \<times> TPM \<times> event list" where
  "step (CallOpen e ctx) t = (case Open e ctx t of (r, t', evs) \<Rightarrow> (resumes r, t', evs))"
| "step (CallClose e ctx) t = (case Close e ctx t of (r, t', evs) \<Rightarrow> (resumes r, t', evs))"

text \<open>
  The calls run one after the other on the handle; a call that never gives control back
  ends the run. The result is the handle's last state and every call made on the lock and
  the collaborators.
\<close>

fun run :: "call list \<Rightarrow> TPM \<Rightarrow> TPM \<times> event list" where
  "run [] t = (t, [])"
| "run (c # cs) t =
     (case step c t of
        (ok, t', evs) \<Rightarrow>
          if ok then (case run cs t' of (t'', evs') \<Rightarrow> (t'', evs @ evs'))
          else (t', evs))"

subsection \<open>Predicates on handles and events\<close>

text \<open>A handle as \<open>New\<close> leaves it: no backend populated, the lock free.\<close>

definition idle :: "TPM \<Rightarrow> bool" where
  "idle t = (attestTPM t = None \<and> rwc t = None \<and> \<not> lock t)"

definition both_backends :: "TPM \<Rightarrow> bool" where
  "both_backends t = (attestTPM t \<noteq> None \<and> rwc t \<noteq> None)"

definition one_backend :: "TPM \<Rightarrow> bool" where
  "one_backend t = ((attestTPM t \<noteq> None) \<noteq> (rwc t \<noteq> None))"

text \<open>
  Without a simulator: a free lock means no backend is populated, and the two backends
  are never populated together.
\<close>

definition exclusive :: "TPM \<Rightarrow> bool" where
  "exclusive t =
     (simulator t = None \<and> (\<not> lock t \<longrightarrow> attestTPM t = None \<and> rwc t = None) \<and>
      \<not> both_backends t)"

fun is_close :: "event \<Rightarrow> bool" where
  "is_close (AttestCloseCall _) = True"
| "is_close (ChannelCloseCall _) = True"
| "is_close _ = False"

text \<open>The only session a simulator handle asks for: version 2.0 over the simulator.\<close>

fun uses_simulator :: "ref \<Rightarrow> event \<Rightarrow> bool" where
  "uses_simulator sim (AttestOpenCall cfg) =
     (cfg = Some \<lparr>TPMVersion = TPMVersion20, CommandChannel = Some sim\<rparr>)"
| "uses_simulator sim (DeviceOpenCall _) = False"
| "uses_simulator sim _ = True"

subsection \<open>Sample collaborators, contexts and handles\<close>

definition env_ok :: env where
  "env_ok =
     \<lparr>store_Load = (\<lambda>_. None),
      attest_OpenTPM = (\<lambda>_. Inr 1),
      open_TPM = (\<lambda>_. Inr 2),
      attestTPM_Close = (\<lambda>_. None),
      rwc_Close = (\<lambda>_. None)\<rparr>"

definition env_fail :: env where
  "env_fail =
     \<lparr>store_Load = (\<lambda>_. Some (ExtError 0)),
      attest_OpenTPM = (\<lambda>_. Inl (ExtError 1)),
      open_TPM = (\<lambda>_. Inl (ExtError 2)),
      attestTPM_Close = (\<lambda>_. Some (ExtError 3)),
      rwc_Close = (\<lambda>_. Some (ExtError 4))\<rparr>"

text \<open>The store loads, every backend fails to open.\<close>

definition env_no_backend :: env where
  "env_no_backend = env_fail\<lparr>store_Load := (\<lambda>_. None)\<rparr>"

definition ctx_internal :: call_context where
  "ctx_internal = \<lparr>internalCall = True, goTPMCall = False\<rparr>"

definition ctx_attest :: call_context where
  "ctx_attest = \<lparr>internalCall = False, goTPMCall = False\<rparr>"

definition ctx_raw :: call_context where
  "ctx_raw = \<lparr>internalCall = False, goTPMCall = True\<rparr>"

definition handle0 :: TPM where
  "handle0 =
     \<lparr>deviceName = ''/dev/tpmrm0'',
      attestConfig = Some \<lparr>TPMVersion = TPMVersion20, CommandChannel = None\<rparr>,
      attestTPM = None,
      rwc = None,
      lock = False,
      store = Some BlackHole,
      simulator = None\<rparr>"

definition handle_sim :: TPM where
  "handle_sim = handle0\<lparr>simulator := Some 7\<rparr>"

lemmas sample_defs =
  isInternalCall_def isGoTPMCall_def ctx_raw_def ctx_attest_def ctx_internal_def
  handle0_def handle_sim_def env_ok_def env_fail_def env_no_backend_def

section \<open>Version strings\<close>

lemma TPMVersion_distinct: "TPMVersion12 \<noteq> TPMVersion20"
  by (simp add: TPMVersion12_def TPMVersion20_def)

lemma json_Marshal_plain:
  "json_Marshal ''1.2'' = Inr (dquote # ''1.2'' @ [dquote])"
  "json_Marshal ''2.0'' = Inr (dquote # ''2.0'' @ [dquote])"
  "json_Marshal ''unknown'' = Inr (dquote # ''unknown'' @ [dquote])"
  by (simp_all add: json_Marshal_def json_escape_def dquote_def backslash_def)

text \<open>
  C9: for every \<open>Version\<close> value, \<open>String\<close> returns "TPM 1.2" for
  \<open>TPMVersion12\<close>, "TPM 2.0" for \<open>TPMVersion20\<close> and "unknown" for every other
  value, and nothing else; \<open>MarshalJSON\<close> never returns an error and yields the JSON
  string "1.2", "2.0" or "unknown" under the same case split.
\<close>

theorem Version_String_MarshalJSON:
  "Version_String v \<in> {''TPM 1.2'', ''TPM 2.0'', ''unknown''} \<and>
   (v = TPMVersion12 \<longrightarrow>
      Version_String v = ''TPM 1.2'' \<and>
      Version_MarshalJSON v = Inr (dquote # ''1.2'' @ [dquote])) \<and>
   (v = TPMVersion20 \<longrightarrow>
      Version_String v = ''TPM 2.0'' \<and>
      Version_MarshalJSON v = Inr (dquote # ''2.0'' @ [dquote])) \<and>
   (v \<noteq> TPMVersion12 \<and> v \<noteq> TPMVersion20 \<longrightarrow>
      Version_String v = ''unknown'' \<and>
      Version_MarshalJSON v = Inr (dquote # ''unknown'' @ [dquote])) \<and>
   (\<forall>err. Version_MarshalJSON v \<noteq> Inl err)"
  using TPMVersion_distinct
  by (simp add: Version_String_def Version_MarshalJSON_def json_Marshal_plain)

theorem Version_String_MarshalJSON_witness:
  "Version_String 1 = ''TPM 1.2'' \<and>
   Version_MarshalJSON 1 = Inr (dquote # ''1.2'' @ [dquote]) \<and>
   Version_String 2 = ''TPM 2.0'' \<and>
   Version_MarshalJSON 2 = Inr (dquote # ''2.0'' @ [dquote]) \<and>
   Version_String 0 = ''unknown'' \<and>
   Version_MarshalJSON 0 = Inr (dquote # ''unknown'' @ [dquote]) \<and>
   Version_String 255 = ''unknown'' \<and>
   Version_MarshalJSON 255 = Inr (dquote # ''unknown'' @ [dquote])"
  using Version_String_MarshalJSON [of 1] Version_String_MarshalJSON [of 2]
    Version_String_MarshalJSON [of 0] Version_String_MarshalJSON [of 255]
  by (simp add: TPMVersion12_def TPMVersion20_def)

section \<open>Manufacturer lookup\<close>

text \<open>
  C10: whatever the two lookups answer, the \<open>Manufacturer\<close> returned by
  \<open>GetManufacturerByID\<close> carries the identifier it was given.
\<close>

theorem GetManufacturerByID_keeps_ID:
  "ID (GetManufacturerByID GetEncodings GetNameByASCII mid) = mid"
  by (simp add: GetManufacturerByID_def split: prod.split)

section \<open>Construction\<close>

text \<open>
  C8: \<open>New\<close> without options succeeds with the black-hole store (not nil) and an
  attestation configuration for TPM version 2.0; \<open>WithStore\<close> given a nil store puts
  the black-hole store in its place, so no \<open>WithStore\<close> leaves the store nil.
\<close>

theorem New_defaults:
  "(\<exists>t. New [] = Inr t \<and> store t = Some BlackHole \<and>
        attestConfig t = Some \<lparr>TPMVersion = TPMVersion20, CommandChannel = None\<rparr> \<and>
        map_option (Version_String \<circ> TPMVersion) (attestConfig t) = Some ''TPM 2.0'') \<and>
   (\<forall>t. WithStore None t = Inr (t\<lparr>store := Some BlackHole\<rparr>)) \<and>
   (\<forall>st t. \<exists>t'. WithStore st t = Inr t' \<and> store t' \<noteq> None) \<and>
   (\<exists>t. New [WithStore None] = Inr t \<and> store t = Some BlackHole)"
  using TPMVersion_distinct
  by (auto simp add: New_def WithStore_def Version_String_def)

section \<open>Reentrant calls\<close>

text \<open>
  C1: with the internal-call marker in the context, \<open>Open\<close> returns nil at once and
  \<open>Close\<close> returns at once: the handle (lock and backend fields included) is unchanged
  and no call is made on the lock, the store or a backend.
\<close>

theorem reentrant_noop:
  "isInternalCall ctx \<Longrightarrow>
     Open e ctx t = (Returns None, t, []) \<and> Close e ctx t = (Returns (), t, [])"
  by (simp add: Open_def Close_def)

theorem reentrant_noop_witness:
  "isInternalCall ctx_internal \<and>
   Open env_fail ctx_internal handle0 = (Returns None, handle0, []) \<and>
   Close env_fail ctx_internal (handle0\<lparr>lock := True, attestTPM := Some 1\<rparr>)
     = (Returns (), handle0\<lparr>lock := True, attestTPM := Some 1\<rparr>, [])"
proof -
  have h: "isInternalCall ctx_internal"
    by (simp add: isInternalCall_def ctx_internal_def)
  show ?thesis
    using h reentrant_noop [OF h, of env_fail handle0]
      reentrant_noop [OF h, of env_fail "handle0\<lparr>lock := True, attestTPM := Some 1\<rparr>"]
    by simp
qed

section \<open>Opening\<close>

text \<open>
  C3: when a non-reentrant \<open>Open\<close> has taken the lock and \<open>store.Load()\<close> answers an
  error, \<open>Open\<close> returns that very error, the backend fields are as before, and the lock
  is still held on return: \<open>Lock\<close> and \<open>Load\<close> are the only calls made, \<open>Unlock\<close> is
  not among them.
\<close>

theorem Open_Load_error:
  assumes "\<not> isInternalCall ctx" and "\<not> lock t" and "store t = Some s"
    and "store_Load e s = Some err"
  shows "Open e ctx t = (Returns (Some err), t\<lparr>lock := True\<rparr>, [LockCall, LoadCall s]) \<and>
         (case Open e ctx t of
            (r, t', evs) \<Rightarrow>
              r = Returns (Some err) \<and>
              attestTPM t' = attestTPM t \<and> rwc t' = rwc t \<and> simulator t' = simulator t \<and>
              lock t' \<and> UnlockCall \<notin> set evs)"
  using assms by (simp add: Open_def)

theorem Open_Load_error_witness:
  "\<not> isInternalCall ctx_raw \<and> \<not> lock handle0 \<and> store handle0 = Some BlackHole \<and>
   store_Load env_fail BlackHole = Some (ExtError 0) \<and>
   Open env_fail ctx_raw handle0
     = (Returns (Some (ExtError 0)), handle0\<lparr>lock := True\<rparr>, [LockCall, LoadCall BlackHole])"
proof -
  have h: "\<not> isInternalCall ctx_raw" "\<not> lock handle0" "store handle0 = Some BlackHole"
    "store_Load env_fail BlackHole = Some (ExtError 0)"
    by (simp_all add: isInternalCall_def ctx_raw_def handle0_def env_fail_def)
  from Open_Load_error [OF h] h show ?thesis by simp
qed

text \<open>
  C2: a non-reentrant \<open>Open\<close> that holds the lock and has loaded the store selects its
  backend in this order. With a simulator: when no session is populated, a session is
  asked for with version 2.0 and the simulator as command channel and stored, and the
  simulator becomes \<open>rwc\<close>; when a session is already populated none is opened and the
  simulator becomes \<open>rwc\<close>; the raw-transport marker plays no part. Without a simulator
  and with the raw-transport marker: the device \<open>deviceName\<close> is opened and stored in
  \<open>rwc\<close>. Otherwise a session is opened from \<open>attestConfig\<close> and stored in
  \<open>attestTPM\<close>. A backend that fails to open leaves the fields as they were and its
  error is returned wrapped.
\<close>

theorem Open_backend_priority:
  assumes "\<not> isInternalCall ctx" and "\<not> lock t" and "store t = Some s"
    and "store_Load e s = None"
  shows
   "(\<forall>sim. simulator t = Some sim \<longrightarrow>
       (let cfg = Some \<lparr>TPMVersion = TPMVersion20, CommandChannel = Some sim\<rparr> in
        (attestTPM t = None \<longrightarrow>
           (\<forall>at. attest_OpenTPM e cfg = Inr at \<longrightarrow>
              Open e ctx t =
                (Returns None, t\<lparr>lock := True, attestTPM := Some at, rwc := Some sim\<rparr>,
                 [LockCall, LoadCall s, AttestOpenCall cfg])) \<and>
           (\<forall>err. attest_OpenTPM e cfg = Inl err \<longrightarrow>
              Open e ctx t =
                (Returns (Some (Errorf ''failed opening attest.TPM: '' err)), t\<lparr>lock := True\<rparr>,
                 [LockCall, LoadCall s, AttestOpenCall cfg]))) \<and>
        (attestTPM t \<noteq> None \<longrightarrow>
           Open e ctx t =
             (Returns None, t\<lparr>lock := True, rwc := Some sim\<rparr>, [LockCall, LoadCall s])))) \<and>
    (simulator t = None \<and> isGoTPMCall ctx \<longrightarrow>
       (\<forall>ch. open_TPM e (deviceName t) = Inr ch \<longrightarrow>
          Open e ctx t =
            (Returns None, t\<lparr>lock := True, rwc := Some ch\<rparr>,
             [LockCall, LoadCall s, DeviceOpenCall (deviceName t)])) \<and>
       (\<forall>err. open_TPM e (deviceName t) = Inl err \<longrightarrow>
          Open e ctx t =
            (Returns (Some (Errorf ''failed opening TPM: '' err)), t\<lparr>lock := True\<rparr>,
             [LockCall, LoadCall s, DeviceOpenCall (deviceName t)]))) \<and>
    (simulator t = None \<and> \<not> isGoTPMCall ctx \<longrightarrow>
       (\<forall>at. attest_OpenTPM e (attestConfig t) = Inr at \<longrightarrow>
          Open e ctx t =
            (Returns None, t\<lparr>lock := True, attestTPM := Some at\<rparr>,
             [LockCall, LoadCall s, AttestOpenCall (attestConfig t)])) \<and>
       (\<forall>err. attest_OpenTPM e (attestConfig t) = Inl err \<longrightarrow>
          Open e ctx t =
            (Returns (Some (Errorf ''failed opening TPM: '' err)), t\<lparr>lock := True\<rparr>,
             [LockCall, LoadCall s, AttestOpenCall (attestConfig t)])))"
  using assms by (auto simp add: Open_def openBackend_def Let_def)

theorem Open_backend_priority_witness:
  "Open env_ok ctx_raw handle_sim =
     (Returns None, handle_sim\<lparr>lock := True, attestTPM := Some 1, rwc := Some 7\<rparr>,
      [LockCall, LoadCall BlackHole,
       AttestOpenCall (Some \<lparr>TPMVersion = TPMVersion20, CommandChannel = Some 7\<rparr>)]) \<and>
   Open env_no_backend ctx_raw (handle_sim\<lparr>attestTPM := Some 1\<rparr>) =
     (Returns None, handle_sim\<lparr>attestTPM := Some 1, lock := True, rwc := Some 7\<rparr>,
      [LockCall, LoadCall BlackHole]) \<and>
   Open env_ok ctx_raw handle0 =
     (Returns None, handle0\<lparr>lock := True, rwc := Some 2\<rparr>,
      [LockCall, LoadCall BlackHole, DeviceOpenCall ''/dev/tpmrm0'']) \<and>
   Open env_ok ctx_attest handle0 =
     (Returns None, handle0\<lparr>lock := True, attestTPM := Some 1\<rparr>,
      [LockCall, LoadCall BlackHole,
       AttestOpenCall (Some \<lparr>TPMVersion = TPMVersion20, CommandChannel = None\<rparr>)]) \<and>
   Open env_no_backend ctx_attest handle0 =
     (Returns (Some (Errorf ''failed opening TPM: '' (ExtError 1))), handle0\<lparr>lock := True\<rparr>,
      [LockCall, LoadCall BlackHole,
       AttestOpenCall (Some \<lparr>TPMVersion = TPMVersion20, CommandChannel = None\<rparr>)])"
proof -
  have a: "\<not> isInternalCall ctx_raw" "\<not> isInternalCall ctx_attest"
    and b: "\<not> lock handle_sim" "\<not> lock (handle_sim\<lparr>attestTPM := Some 1\<rparr>)" "\<not> lock handle0"
    and c: "store handle_sim = Some BlackHole"
      "store (handle_sim\<lparr>attestTPM := Some 1\<rparr>) = Some BlackHole"
      "store handle0 = Some BlackHole"
    and d: "store_Load env_ok BlackHole = None" "store_Load env_no_backend BlackHole = None"
    by (simp_all add: sample_defs)
  show ?thesis
    using Open_backend_priority [OF a(1) b(1) c(1) d(1)]
      Open_backend_priority [OF a(1) b(2) c(2) d(2)]
      Open_backend_priority [OF a(1) b(3) c(3) d(1)]
      Open_backend_priority [OF a(2) b(3) c(3) d(1)]
      Open_backend_priority [OF a(2) b(3) c(3) d(2)]
    by (simp add: sample_defs)
qed

section \<open>Closing\<close>

text \<open>
  C5: a non-reentrant \<open>Close\<close> on a handle with a simulator makes one call,
  \<open>Unlock\<close>: no close operation is invoked, and \<open>attestTPM\<close>, \<open>rwc\<close> and
  \<open>simulator\<close> are as before. When the lock is held it returns with the lock released
  and nothing else changed.
\<close>

theorem Close_simulator_only_unlocks:
  assumes "\<not> isInternalCall ctx" and "simulator t \<noteq> None"
  shows "(case Close e ctx t of
            (r, t', evs) \<Rightarrow>
              evs = [UnlockCall] \<and>
              attestTPM t' = attestTPM t \<and> rwc t' = rwc t \<and> simulator t' = simulator t) \<and>
         (lock t \<longrightarrow> Close e ctx t = (Returns (), t\<lparr>lock := False\<rparr>, [UnlockCall]))"
  using assms by (simp add: Close_def Unlock_def)

theorem Close_simulator_only_unlocks_witness:
  "\<not> isInternalCall ctx_attest \<and>
   simulator (handle_sim\<lparr>lock := True, attestTPM := Some 1, rwc := Some 7\<rparr>) \<noteq> None \<and>
   Close env_ok ctx_attest (handle_sim\<lparr>lock := True, attestTPM := Some 1, rwc := Some 7\<rparr>)
     = (Returns (), handle_sim\<lparr>lock := False, attestTPM := Some 1, rwc := Some 7\<rparr>, [UnlockCall])"
proof -
  have h: "\<not> isInternalCall ctx_attest"
    "simulator (handle_sim\<lparr>lock := True, attestTPM := Some 1, rwc := Some 7\<rparr>) \<noteq> None"
    by (simp_all add: sample_defs)
  from Close_simulator_only_unlocks [OF h, of env_ok] h show ?thesis
    by (simp add: sample_defs)
qed

text \<open>
  C6: a non-reentrant \<open>Close\<close> on a handle without simulator closes the session if
  one is populated, then the raw channel if one is populated, clears both fields and calls
  \<open>Unlock\<close>; it returns (nothing) whenever the lock was held. What the two close
  operations answer has no influence on the outcome, the handle or the calls made.
\<close>

theorem Close_teardown:
  assumes "\<not> isInternalCall ctx" and "simulator t = None"
  shows "Close e ctx t =
           (if lock t then Returns () else Fatal,
            t\<lparr>attestTPM := None, rwc := None, lock := False\<rparr>,
            (case attestTPM t of Some at \<Rightarrow> [AttestCloseCall at] | None \<Rightarrow> []) @
            (case rwc t of Some ch \<Rightarrow> [ChannelCloseCall ch] | None \<Rightarrow> []) @ [UnlockCall]) \<and>
         (\<forall>e'. Close e' ctx t = Close e ctx t)"
  using assms
  by (cases t) (auto simp add: Close_def Unlock_def closeAttestTPM_def closeRwc_def Let_def split: option.splits)

theorem Close_teardown_witness:
  "\<not> isInternalCall ctx_raw \<and> simulator (handle0\<lparr>lock := True, rwc := Some 2\<rparr>) = None \<and>
   Close env_fail ctx_raw (handle0\<lparr>lock := True, rwc := Some 2\<rparr>)
     = (Returns (), handle0, [ChannelCloseCall 2, UnlockCall]) \<and>
   Close env_fail ctx_raw (handle0\<lparr>lock := True, rwc := Some 2\<rparr>)
     = Close env_ok ctx_raw (handle0\<lparr>lock := True, rwc := Some 2\<rparr>) \<and>
   Close env_fail ctx_attest (handle0\<lparr>lock := True, attestTPM := Some 1\<rparr>)
     = (Returns (), handle0, [AttestCloseCall 1, UnlockCall])"
proof -
  have h: "\<not> isInternalCall ctx_raw" "simulator (handle0\<lparr>lock := True, rwc := Some 2\<rparr>) = None"
    and k: "\<not> isInternalCall ctx_attest"
      "simulator (handle0\<lparr>lock := True, attestTPM := Some 1\<rparr>) = None"
    by (simp_all add: sample_defs)
  note raw = Close_teardown [OF h, of env_fail]
  note att = Close_teardown [OF k, of env_fail]
  have same: "Close env_fail ctx_raw (handle0\<lparr>lock := True, rwc := Some 2\<rparr>)
     = Close env_ok ctx_raw (handle0\<lparr>lock := True, rwc := Some 2\<rparr>)"
    by (rule raw [THEN conjunct2, rule_format, of env_ok, symmetric])
  have "Close env_fail ctx_raw (handle0\<lparr>lock := True, rwc := Some 2\<rparr>)
     = (Returns (), handle0, [ChannelCloseCall 2, UnlockCall])"
    using raw [THEN conjunct1] by (simp add: handle0_def)
  moreover have "Close env_fail ctx_attest (handle0\<lparr>lock := True, attestTPM := Some 1\<rparr>)
     = (Returns (), handle0, [AttestCloseCall 1, UnlockCall])"
    using att [THEN conjunct1] by (simp add: handle0_def)
  ultimately show ?thesis
    using h same by simp
qed

section \<open>Sequences of calls with a simulator\<close>

lemma openBackend_keeps_simulator:
  "openBackend e ctx t = (r, t', evs) \<Longrightarrow> simulator t' = simulator t"
  by (auto simp add: openBackend_def Let_def split: option.splits sum.splits if_splits)

lemma Open_keeps_simulator: "Open e ctx t = (r, t', evs) \<Longrightarrow> simulator t' = simulator t"
  by (auto simp add: Open_def Let_def split: option.splits if_splits prod.splits
      dest: openBackend_keeps_simulator)

lemma Close_keeps_simulator: "Close e ctx t = (r, t', evs) \<Longrightarrow> simulator t' = simulator t"
  by (auto simp add: Close_def Unlock_def closeAttestTPM_def closeRwc_def Let_def
      split: option.splits if_splits)

lemma step_keeps_simulator: "step c t = (ok, t', evs) \<Longrightarrow> simulator t' = simulator t"
  by (cases c) (auto split: prod.splits dest: Open_keeps_simulator Close_keeps_simulator)

lemma run_keeps_simulator: "simulator (fst (run cs t)) = simulator t"
proof (induction cs arbitrary: t)
  case Nil
  show ?case by simp
next
  case (Cons c cs)
  obtain ok t' evs where s: "step c t = (ok, t', evs)"
    by (cases "step c t") auto
  have "simulator t' = simulator t"
    using s by (rule step_keeps_simulator)
  with Cons [of t'] s show ?case
    by (cases "run cs t'") simp
qed

lemma openBackend_events_simulator:
  "simulator t = Some sim \<Longrightarrow> openBackend e ctx t = (r, t', evs) \<Longrightarrow>
     ev \<in> set evs \<Longrightarrow> \<not> is_close ev \<and> uses_simulator sim ev"
  by (auto simp add: openBackend_def Let_def split: option.splits sum.splits)

lemma Open_events_simulator:
  "simulator t = Some sim \<Longrightarrow> Open e ctx t = (r, t', evs) \<Longrightarrow>
     ev \<in> set evs \<Longrightarrow> \<not> is_close ev \<and> uses_simulator sim ev"
  using openBackend_events_simulator [of "t\<lparr>lock := True\<rparr>" sim e ctx _ t' _ ev]
  by (auto simp add: Open_def Let_def split: option.splits if_splits prod.splits)

lemma Close_events_simulator:
  "simulator t = Some sim \<Longrightarrow> Close e ctx t = (r, t', evs) \<Longrightarrow>
     ev \<in> set evs \<Longrightarrow> \<not> is_close ev \<and> uses_simulator sim ev"
  by (auto simp add: Close_def Unlock_def split: if_splits)

lemma step_events_simulator:
  "simulator t = Some sim \<Longrightarrow> step c t = (ok, t', evs) \<Longrightarrow>
     ev \<in> set evs \<Longrightarrow> \<not> is_close ev \<and> uses_simulator sim ev"
  by (cases c) (auto split: prod.splits dest: Open_events_simulator Close_events_simulator)

lemma run_events_simulator:
  "simulator t = Some sim \<Longrightarrow> ev \<in> set (snd (run cs t)) \<Longrightarrow>
     \<not> is_close ev \<and> uses_simulator sim ev"
proof (induction cs arbitrary: t)
  case Nil
  then show ?case by simp
next
  case (Cons c cs)
  obtain ok t' evs where s: "step c t = (ok, t', evs)"
    by (cases "step c t") auto
  have sim': "simulator t' = Some sim"
    using step_keeps_simulator [OF s] Cons.prems(1) by simp
  show ?case
  proof (cases "ok \<and> ev \<notin> set evs")
    case True
    then have "ev \<in> set (snd (run cs t'))"
      using Cons.prems(2) s by (auto split: prod.splits)
    then show ?thesis
      using Cons.IH [OF sim'] by simp
  next
    case False
    then have "ev \<in> set evs"
      using Cons.prems(2) s by (auto split: prod.splits)
    then show ?thesis
      using step_events_simulator [OF Cons.prems(1) s] by simp
  qed
qed

lemma Open_aliases_simulator:
  "simulator t = Some sim \<Longrightarrow> \<not> isInternalCall ctx \<Longrightarrow> Open e ctx t = (Returns None, t', evs) \<Longrightarrow>
     rwc t' = Some sim \<and> attestTPM t' \<noteq> None"
  by (auto simp add: Open_def openBackend_def Let_def split: option.splits if_splits sum.splits)

text \<open>
  C7: along every sequence of \<open>Open\<close> and \<open>Close\<close> calls on a handle with a
  simulator, the \<open>simulator\<close> field keeps its value, no close operation is ever invoked
  (neither on a session nor on a channel), no device is opened and every session asked
  for runs over that simulator; a further successful \<open>Open\<close> has the same simulator as
  \<open>rwc\<close>, and a further \<open>Close\<close> closes nothing.
\<close>

theorem simulator_preserved:
  assumes "simulator t = Some sim"
  shows "simulator (fst (run cs t)) = Some sim \<and>
         (\<forall>ev \<in> set (snd (run cs t)). \<not> is_close ev \<and> uses_simulator sim ev) \<and>
         (\<forall>e ctx t' evs.
            \<not> isInternalCall ctx \<and> Open e ctx (fst (run cs t)) = (Returns None, t', evs) \<longrightarrow>
              simulator t' = Some sim \<and> rwc t' = Some sim \<and> attestTPM t' \<noteq> None) \<and>
         (\<forall>e ctx r t' evs.
            Close e ctx (fst (run cs t)) = (r, t', evs) \<longrightarrow>
              simulator t' = Some sim \<and> (\<forall>ev \<in> set evs. \<not> is_close ev))"
proof -
  have fin: "simulator (fst (run cs t)) = Some sim"
    using assms by (simp add: run_keeps_simulator)
  have evs: "\<forall>ev \<in> set (snd (run cs t)). \<not> is_close ev \<and> uses_simulator sim ev"
    using run_events_simulator [OF assms] by blast
  have opn: "\<forall>e ctx t' evs.
      \<not> isInternalCall ctx \<and> Open e ctx (fst (run cs t)) = (Returns None, t', evs) \<longrightarrow>
        simulator t' = Some sim \<and> rwc t' = Some sim \<and> attestTPM t' \<noteq> None"
    using Open_aliases_simulator [OF fin] Open_keeps_simulator fin by metis
  have cls: "\<forall>e ctx r t' evs.
      Close e ctx (fst (run cs t)) = (r, t', evs) \<longrightarrow>
        simulator t' = Some sim \<and> (\<forall>ev \<in> set evs. \<not> is_close ev)"
    using Close_events_simulator [OF fin] Close_keeps_simulator fin by metis
  from fin evs opn cls show ?thesis by blast
qed

theorem simulator_preserved_witness:
  "simulator handle_sim = Some 7 \<and>
   run [CallOpen env_ok ctx_attest, CallClose env_fail ctx_attest,
        CallOpen env_ok ctx_raw, CallClose env_ok ctx_raw] handle_sim
     = (handle_sim\<lparr>attestTPM := Some 1, rwc := Some 7\<rparr>,
        [LockCall, LoadCall BlackHole,
         AttestOpenCall (Some \<lparr>TPMVersion = TPMVersion20, CommandChannel = Some 7\<rparr>),
         UnlockCall, LockCall, LoadCall BlackHole, UnlockCall]) \<and>
   simulator (fst (run [CallOpen env_ok ctx_attest, CallClose env_fail ctx_attest,
        CallOpen env_ok ctx_raw, CallClose env_ok ctx_raw] handle_sim)) = Some 7 \<and>
   filter is_close (snd (run [CallOpen env_ok ctx_attest, CallClose env_fail ctx_attest,
        CallOpen env_ok ctx_raw, CallClose env_ok ctx_raw] handle_sim)) = []"
proof -
  have h: "simulator handle_sim = Some 7"
    by (simp add: sample_defs)
  have r: "run [CallOpen env_ok ctx_attest, CallClose env_fail ctx_attest,
        CallOpen env_ok ctx_raw, CallClose env_ok ctx_raw] handle_sim
     = (handle_sim\<lparr>attestTPM := Some 1, rwc := Some 7\<rparr>,
        [LockCall, LoadCall BlackHole,
         AttestOpenCall (Some \<lparr>TPMVersion = TPMVersion20, CommandChannel = Some 7\<rparr>),
         UnlockCall, LockCall, LoadCall BlackHole, UnlockCall])"
    by (simp add: sample_defs Open_def Close_def openBackend_def Unlock_def)
  from simulator_preserved [OF h, of "[CallOpen env_ok ctx_attest, CallClose env_fail ctx_attest,
        CallOpen env_ok ctx_raw, CallClose env_ok ctx_raw]"] h r
  show ?thesis by simp
qed

section \<open>Sequences of calls without a simulator\<close>

lemma idle_exclusive: "idle t \<Longrightarrow> simulator t = None \<Longrightarrow> exclusive t"
  by (simp add: idle_def exclusive_def both_backends_def)

lemma Open_exclusive: "exclusive t \<Longrightarrow> Open e ctx t = (r, t', evs) \<Longrightarrow> exclusive t'"
  by (auto simp add: Open_def openBackend_def exclusive_def both_backends_def Let_def
      split: option.splits if_splits sum.splits)

lemma Close_exclusive: "exclusive t \<Longrightarrow> Close e ctx t = (r, t', evs) \<Longrightarrow> exclusive t'"
  by (auto simp add: Close_def Unlock_def closeAttestTPM_def closeRwc_def exclusive_def
      both_backends_def Let_def split: option.splits if_splits)

lemma step_exclusive: "exclusive t \<Longrightarrow> step c t = (ok, t', evs) \<Longrightarrow> exclusive t'"
  by (cases c) (auto split: prod.splits dest: Open_exclusive Close_exclusive)

lemma run_exclusive: "exclusive t \<Longrightarrow> exclusive (fst (run cs t))"
proof (induction cs arbitrary: t)
  case Nil
  then show ?case by simp
next
  case (Cons c cs)
  obtain ok t' evs where s: "step c t = (ok, t', evs)"
    by (cases "step c t") auto
  have t': "exclusive t'"
    using Cons.prems s by (rule step_exclusive)
  show ?case
    using Cons.IH [OF t'] t' s by (cases "run cs t'") simp
qed

lemma Open_one_backend:
  "exclusive t \<Longrightarrow> \<not> isInternalCall ctx \<Longrightarrow> Open e ctx t = (Returns None, t', evs) \<Longrightarrow>
     one_backend t' \<and> lock t' \<and> simulator t' = None"
  by (auto simp add: Open_def openBackend_def exclusive_def one_backend_def Let_def
      split: option.splits if_splits sum.splits)

lemma closeAttestTPM_not_both:
  "\<not> both_backends t \<Longrightarrow> \<not> both_backends (fst (closeAttestTPM e t))"
  by (auto simp add: closeAttestTPM_def both_backends_def Let_def split: option.splits)

lemma Close_clears:
  "simulator t = None \<Longrightarrow> \<not> isInternalCall ctx \<Longrightarrow> lock t \<Longrightarrow>
     \<exists>t' evs. Close e ctx t = (Returns (), t', evs) \<and>
       attestTPM t' = None \<and> rwc t' = None \<and> \<not> lock t'"
  by (auto simp add: Close_def Unlock_def closeAttestTPM_def closeRwc_def Let_def
      split: option.splits)

text \<open>
  C4: take a handle without simulator as \<open>New\<close> leaves it (no backend populated, lock
  free) and run any sequence of \<open>Open\<close> and \<open>Close\<close> calls on it. In the state
  reached the session and the raw channel are not both populated. When a non-reentrant
  \<open>Open\<close> succeeds from there, exactly one of the two is populated afterwards; the
  non-reentrant \<open>Close\<close> that follows returns with both cleared, and between its two
  teardown blocks they are not both populated either.
\<close>

theorem backends_exclusive:
  assumes "idle t0" and "simulator t0 = None"
  shows "\<not> both_backends (fst (run cs t0)) \<and>
         (\<forall>e ctx t' evs.
            \<not> isInternalCall ctx \<and> Open e ctx (fst (run cs t0)) = (Returns None, t', evs) \<longrightarrow>
              one_backend t' \<and>
              (\<forall>e' ctx'. \<not> isInternalCall ctx' \<longrightarrow>
                 \<not> both_backends (fst (closeAttestTPM e' t')) \<and>
                 (\<exists>t'' evs'. Close e' ctx' t' = (Returns (), t'', evs') \<and>
                    attestTPM t'' = None \<and> rwc t'' = None)))"
proof -
  have ex: "exclusive (fst (run cs t0))"
    using assms by (simp add: idle_exclusive run_exclusive)
  then have now: "\<not> both_backends (fst (run cs t0))"
    by (simp add: exclusive_def)
  have "one_backend t' \<and>
        (\<forall>e' ctx'. \<not> isInternalCall ctx' \<longrightarrow>
           \<not> both_backends (fst (closeAttestTPM e' t')) \<and>
           (\<exists>t'' evs'. Close e' ctx' t' = (Returns (), t'', evs') \<and>
              attestTPM t'' = None \<and> rwc t'' = None))"
    if ni: "\<not> isInternalCall ctx"
      and op: "Open e ctx (fst (run cs t0)) = (Returns None, t', evs)"
    for e ctx t' evs
  proof -
    have one: "one_backend t'" and lk: "lock t'" and ns: "simulator t' = None"
      using Open_one_backend [OF ex ni op] by simp_all
    have nb: "\<not> both_backends t'"
      using Open_exclusive [OF ex op] by (simp add: exclusive_def)
    have "\<not> both_backends (fst (closeAttestTPM e' t')) \<and>
          (\<exists>t'' evs'. Close e' ctx' t' = (Returns (), t'', evs') \<and>
             attestTPM t'' = None \<and> rwc t'' = None)"
      if ni': "\<not> isInternalCall ctx'" for e' ctx'
      using closeAttestTPM_not_both [OF nb] Close_clears [OF ns ni' lk, of e'] by blast
    with one show ?thesis by blast
  qed
  with now show ?thesis by blast
qed

theorem backends_exclusive_witness:
  "idle handle0 \<and> simulator handle0 = None \<and>
   run [CallOpen env_ok ctx_raw] handle0
     = (handle0\<lparr>lock := True, rwc := Some 2\<rparr>,
        [LockCall, LoadCall BlackHole, DeviceOpenCall ''/dev/tpmrm0'']) \<and>
   \<not> both_backends (fst (run [CallOpen env_ok ctx_raw] handle0)) \<and>
   run [CallOpen env_ok ctx_raw, CallClose env_fail ctx_raw] handle0
     = (handle0, [LockCall, LoadCall BlackHole, DeviceOpenCall ''/dev/tpmrm0'',
                  ChannelCloseCall 2, UnlockCall]) \<and>
   \<not> isInternalCall ctx_attest \<and>
   Open env_ok ctx_attest (fst (run [CallOpen env_ok ctx_raw, CallClose env_fail ctx_raw] handle0))
     = (Returns None, handle0\<lparr>lock := True, attestTPM := Some 1\<rparr>,
        [LockCall, LoadCall BlackHole, AttestOpenCall (attestConfig handle0)]) \<and>
   one_backend (handle0\<lparr>lock := True, attestTPM := Some 1\<rparr>) \<and>
   fst (Close env_fail ctx_attest (handle0\<lparr>lock := True, attestTPM := Some 1\<rparr>)) = Returns () \<and>
   attestTPM (fst (snd (Close env_fail ctx_attest (handle0\<lparr>lock := True, attestTPM := Some 1\<rparr>))))
     = None \<and>
   rwc (fst (snd (Close env_fail ctx_attest (handle0\<lparr>lock := True, attestTPM := Some 1\<rparr>))))
     = None"
proof -
  have h: "idle handle0" "simulator handle0 = None"
    by (simp_all add: idle_def sample_defs)
  have ni: "\<not> isInternalCall ctx_attest"
    by (simp add: sample_defs)
  have r1: "run [CallOpen env_ok ctx_raw] handle0
     = (handle0\<lparr>lock := True, rwc := Some 2\<rparr>,
        [LockCall, LoadCall BlackHole, DeviceOpenCall ''/dev/tpmrm0''])"
    by (simp add: sample_defs Open_def openBackend_def)
  have r2: "run [CallOpen env_ok ctx_raw, CallClose env_fail ctx_raw] handle0
     = (handle0, [LockCall, LoadCall BlackHole, DeviceOpenCall ''/dev/tpmrm0'',
                  ChannelCloseCall 2, UnlockCall])"
    by (simp add: sample_defs Open_def openBackend_def Close_def Unlock_def
        closeAttestTPM_def closeRwc_def)
  have op: "Open env_ok ctx_attest
      (fst (run [CallOpen env_ok ctx_raw, CallClose env_fail ctx_raw] handle0))
     = (Returns None, handle0\<lparr>lock := True, attestTPM := Some 1\<rparr>,
        [LockCall, LoadCall BlackHole, AttestOpenCall (attestConfig handle0)])"
    unfolding r2 by (simp add: sample_defs Open_def openBackend_def)
  note a = backends_exclusive [OF h, of "[CallOpen env_ok ctx_raw]"]
  note b = backends_exclusive [OF h, of "[CallOpen env_ok ctx_raw, CallClose env_fail ctx_raw]"]
  have nb: "\<not> both_backends (fst (run [CallOpen env_ok ctx_raw] handle0))"
    using a by blast
  from b ni op
  have one: "one_backend (handle0\<lparr>lock := True, attestTPM := Some 1\<rparr>)"
    and cl: "\<exists>t'' evs'. Close env_fail ctx_attest (handle0\<lparr>lock := True, attestTPM := Some 1\<rparr>)
        = (Returns (), t'', evs') \<and> attestTPM t'' = None \<and> rwc t'' = None"
    by blast+
  from cl have
    "fst (Close env_fail ctx_attest (handle0\<lparr>lock := True, attestTPM := Some 1\<rparr>)) = Returns () \<and>
     attestTPM (fst (snd (Close env_fail ctx_attest (handle0\<lparr>lock := True, attestTPM := Some 1\<rparr>))))
       = None \<and>
     rwc (fst (snd (Close env_fail ctx_attest (handle0\<lparr>lock := True, attestTPM := Some 1\<rparr>))))
       = None"
    by auto
  with h ni r1 r2 op nb one show ?thesis by blast
qed

end
